theory Spec2Isabelle
  imports Complex_Main
begin

section \<open>Scalars of a float tensor\<close>

text \<open>
  The elements of a \<^verbatim>\<open>torch.FloatTensor\<close> (and Python's \<^verbatim>\<open>float\<close>): the finite
  values, the two infinities and NaN. The special values follow IEEE 754; the
  arithmetic on finite values is the exact arithmetic of the reals (no rounding, no
  overflow, no signed zero).
\<close>

datatype scalar = Fin real | PInf | NInf | NaN

fun s_neg :: "scalar \<Rightarrow> scalar" where
  "s_neg (Fin x) = Fin (- x)"
| "s_neg PInf = NInf"
| "s_neg NInf = PInf"
| "s_neg NaN = NaN"

fun s_add :: "scalar \<Rightarrow> scalar \<Rightarrow> scalar" where
  "s_add NaN _ = NaN"
| "s_add _ NaN = NaN"
| "s_add (Fin x) (Fin y) = Fin (x + y)"
| "s_add PInf NInf = NaN"
| "s_add NInf PInf = NaN"
| "s_add PInf _ = PInf"
| "s_add NInf _ = NInf"
| "s_add _ PInf = PInf"
| "s_add _ NInf = NInf"

definition s_sub :: "scalar \<Rightarrow> scalar \<Rightarrow> scalar" where
  "s_sub a b = s_add a (s_neg b)"

fun s_mul :: "scalar \<Rightarrow> scalar \<Rightarrow> scalar" where
  "s_mul NaN _ = NaN"
| "s_mul _ NaN = NaN"
| "s_mul (Fin x) (Fin y) = Fin (x * y)"
| "s_mul (Fin x) PInf = (if x = 0 then NaN else if 0 < x then PInf else NInf)"
| "s_mul (Fin x) NInf = (if x = 0 then NaN else if 0 < x then NInf else PInf)"
| "s_mul PInf (Fin y) = (if y = 0 then NaN else if 0 < y then PInf else NInf)"
| "s_mul NInf (Fin y) = (if y = 0 then NaN else if 0 < y then NInf else PInf)"
| "s_mul PInf PInf = PInf"
| "s_mul PInf NInf = NInf"
| "s_mul NInf PInf = NInf"
| "s_mul NInf NInf = PInf"

text \<open>\<open>s_gt a b\<close> is \<^verbatim>\<open>a > b\<close>, \<open>s_ge a b\<close> is \<^verbatim>\<open>a >= b\<close>, \<open>s_le a b\<close> is
  \<^verbatim>\<open>a <= b\<close>: every comparison with NaN is false.\<close>

fun s_gt :: "scalar \<Rightarrow> scalar \<Rightarrow> bool" where
  "s_gt NaN _ = False"
| "s_gt _ NaN = False"
| "s_gt (Fin x) (Fin y) = (y < x)"
| "s_gt PInf PInf = False"
| "s_gt PInf _ = True"
| "s_gt NInf _ = False"
| "s_gt (Fin x) PInf = False"
| "s_gt (Fin x) NInf = True"

definition s_ge :: "scalar \<Rightarrow> scalar \<Rightarrow> bool" where
  "s_ge a b = (a \<noteq> NaN \<and> b \<noteq> NaN \<and> (a = b \<or> s_gt a b))"

definition s_le :: "scalar \<Rightarrow> scalar \<Rightarrow> bool" where
  "s_le a b = s_ge b a"

text \<open>\<^verbatim>\<open>torch.isinf\<close>, and finiteness (neither infinite nor NaN).\<close>

definition s_isinf :: "scalar \<Rightarrow> bool" where
  "s_isinf a = (a = PInf \<or> a = NInf)"

fun s_isfinite :: "scalar \<Rightarrow> bool" where
  "s_isfinite (Fin x) = True"
| "s_isfinite _ = False"

text \<open>Division of a scalar by a count (a non-negative Python \<^verbatim>\<open>int\<close>): no error on
  a zero count, \<^verbatim>\<open>0 / 0\<close> is NaN.\<close>

fun s_div_count :: "scalar \<Rightarrow> nat \<Rightarrow> scalar" where
  "s_div_count (Fin x) n =
     (if n = 0 then (if x = 0 then NaN else if 0 < x then PInf else NInf)
      else Fin (x / real n))"
| "s_div_count PInf n = PInf"
| "s_div_count NInf n = NInf"
| "s_div_count NaN n = NaN"

definition s_sum :: "scalar list \<Rightarrow> scalar" where
  "s_sum xs = foldl s_add (Fin 0) xs"

section \<open>Errors and tensor primitives\<close>

datatype error = AttributeError | TypeError | RuntimeError | IndexError

definition ebind :: "error + 'a \<Rightarrow> ('a \<Rightarrow> error + 'b) \<Rightarrow> error + 'b" where
  "ebind r f = (case r of Inl e \<Rightarrow> Inl e | Inr v \<Rightarrow> f v)"

text \<open>
  \<^verbatim>\<open>F.binary_cross_entropy_with_logits(input, target, reduction=...)\<close> of torch: per
  element \<^verbatim>\<open>(1 - target) * input - log_sigmoid(input)\<close>, then the sum, or the mean
  (the sum divided by the number of elements, NaN for no element, without an error).
  In this program input and target always have the same shape.
\<close>

fun log_sigmoid :: "scalar \<Rightarrow> scalar" where
  "log_sigmoid (Fin x) = Fin (min x 0 - ln (1 + exp (- \<bar>x\<bar>)))"
| "log_sigmoid PInf = Fin 0"
| "log_sigmoid NInf = NInf"
| "log_sigmoid NaN = NaN"

definition bce_elem :: "scalar \<Rightarrow> scalar \<Rightarrow> scalar" where
  "bce_elem x t = s_sub (s_mul (s_sub (Fin 1) t) x) (log_sigmoid x)"

datatype reduction = ReduceMean | ReduceSum

definition compute_loss :: "reduction \<Rightarrow> scalar list \<Rightarrow> scalar list \<Rightarrow> scalar" where
  "compute_loss r input target =
     (let l = map2 bce_elem input target
      in case r of ReduceSum \<Rightarrow> s_sum l | ReduceMean \<Rightarrow> s_div_count (s_sum l) (length l))"

text \<open>\<^verbatim>\<open>t.view(-1, n)\<close> of a one-dimensional tensor: the rows of \<open>n\<close> consecutive elements;
  a RuntimeError when \<open>n\<close> is not positive or does not divide the length.\<close>

definition rows_of :: "nat \<Rightarrow> 'a list \<Rightarrow> 'a list list" where
  "rows_of n xs = map (\<lambda>g. take n (drop (g * n) xs)) [0 ..< length xs div n]"

definition view_rows :: "int \<Rightarrow> 'a list \<Rightarrow> error + 'a list list" where
  "view_rows n xs =
     (if n \<le> 0 \<or> int (length xs) mod n \<noteq> 0 then Inl RuntimeError
      else Inr (rows_of (nat n) xs))"

text \<open>\<^verbatim>\<open>t[mask]\<close> with a boolean mask of the shape of \<open>t\<close>: the selected elements in
  row-major order; an IndexError when the shapes differ.\<close>

definition masked_select :: "'a list list \<Rightarrow> bool list list \<Rightarrow> error + 'a list" where
  "masked_select t m =
     (if map length t \<noteq> map length m then Inl IndexError
      else Inr (map fst (filter snd (zip (concat t) (concat m)))))"

definition mask_select1 :: "'a list \<Rightarrow> bool list \<Rightarrow> error + 'a list" where
  "mask_select1 xs m =
     (if length xs \<noteq> length m then Inl IndexError
      else Inr (map fst (filter snd (zip xs m))))"

section \<open>LossForRank\<close>

text \<open>The methods of the class that \<^verbatim>\<open>self.loss_fn\<close> can be bound to, and the lookup
  of a method by name (\<^verbatim>\<open>self.<name>\<close>): an AttributeError for a name the class does
  not define.\<close>

datatype bound_method = Bi | Fine | Coarse

definition LossForRank_methods :: "(string \<times> bound_method) list" where
  "LossForRank_methods = [(''bi'', Bi), (''fine'', Fine), (''coarse'', Coarse)]"

definition getattr_method :: "string \<Rightarrow> error + bound_method" where
  "getattr_method name =
     (case map_of LossForRank_methods name of
        None \<Rightarrow> Inl AttributeError
      | Some m \<Rightarrow> Inr m)"

record LossForRank =
  bias :: scalar
  psg_num :: int
  ignore_minor_diff :: scalar
  bce_bias :: scalar
  loss_fn :: bound_method

text \<open>\<^verbatim>\<open>LossForRank.__init__\<close>: warm-up binds \<^verbatim>\<open>self.bce\<close>, otherwise \<^verbatim>\<open>self.bi\<close>.\<close>

definition LossForRank_init ::
  "bool \<Rightarrow> scalar \<Rightarrow> int \<Rightarrow> scalar \<Rightarrow> scalar \<Rightarrow> error + LossForRank" where
  "LossForRank_init is_warm_up bias0 psg_num0 ignore_minor_diff0 bce_bias0 =
     ebind (if is_warm_up then getattr_method ''bce'' else getattr_method ''bi'')
       (\<lambda>fn. Inr \<lparr>bias = bias0, psg_num = psg_num0,
                  ignore_minor_diff = ignore_minor_diff0, bce_bias = bce_bias0,
                  loss_fn = fn\<rparr>)"

text \<open>\<^verbatim>\<open>list(product(range(n), repeat=2))\<close>, \<^verbatim>\<open>y[:, pairs]\<close> (for each row and each
  pair the two elements) and \<^verbatim>\<open>p[:, :, 0] - p[:, :, 1]\<close>.\<close>

definition document_pairs_candidates :: "nat \<Rightarrow> (nat \<times> nat) list" where
  "document_pairs_candidates n = List.product [0 ..< n] [0 ..< n]"

definition gather_pairs :: "(nat \<times> nat) list \<Rightarrow> 'a list list \<Rightarrow> 'a list list list" where
  "gather_pairs pairs y = map (\<lambda>row. map (\<lambda>(i, j). [row ! i, row ! j]) pairs) y"

definition pair_diffs :: "scalar list list list \<Rightarrow> scalar list list" where
  "pair_diffs p = map (map (\<lambda>pr. s_sub (pr ! 0) (pr ! 1))) p"

text \<open>The body of \<^verbatim>\<open>LossForRank.fine\<close> after the candidate pairs are fixed; \<open>fine\<close>
  itself takes the full product over the columns of \<^verbatim>\<open>y_true\<close>.\<close>

definition fine_on ::
  "(nat \<times> nat) list \<Rightarrow> LossForRank \<Rightarrow> scalar list \<Rightarrow> scalar list \<Rightarrow> error + scalar" where
  "fine_on pairs self scores labels =
     ebind (view_rows (psg_num self) scores) (\<lambda>y_pred.
     ebind (view_rows (psg_num self) labels) (\<lambda>y_true.
       let pairs_true = gather_pairs pairs y_true;
           selected_pred = gather_pairs pairs y_pred;
           true_diffs = pair_diffs pairs_true;
           pred_diffs = pair_diffs selected_pred;
           the_mask = map (map (\<lambda>d. s_gt d (ignore_minor_diff self) \<and> \<not> s_isinf d)) true_diffs
       in ebind (masked_select pred_diffs the_mask) (\<lambda>pred_sel.
          ebind (masked_select true_diffs the_mask) (\<lambda>true_sel.
            Inr (compute_loss ReduceMean pred_sel
                   (map (\<lambda>d. if s_gt d (Fin 0) then Fin 1 else Fin 0) true_sel))))))"

definition fine :: "LossForRank \<Rightarrow> scalar list \<Rightarrow> scalar list \<Rightarrow> error + scalar" where
  "fine self scores labels =
     fine_on (document_pairs_candidates (nat (psg_num self))) self scores labels"

text \<open>\<^verbatim>\<open>LossForRank.coarse\<close>.\<close>

definition coarse :: "LossForRank \<Rightarrow> scalar list \<Rightarrow> scalar list \<Rightarrow> error + scalar" where
  "coarse self scores labels =
     (let classes = map (\<lambda>l. s_ge l (Fin (1 / 2))) labels
      in ebind (mask_select1 scores classes) (\<lambda>pos_scores.
         ebind (mask_select1 scores (map Not classes)) (\<lambda>neg_scores.
           let loss0 = Fin 0;
               loss1 = (if length pos_scores \<noteq> 0
                        then s_add loss0
                               (compute_loss ReduceSum pos_scores (map (\<lambda>_. Fin 1) pos_scores))
                        else loss0);
               loss2 = (if length neg_scores \<noteq> 0
                        then s_add loss1
                               (s_mul (bias self)
                                  (compute_loss ReduceSum neg_scores (map (\<lambda>_. Fin 0) neg_scores)))
                        else loss1)
           in Inr (s_div_count loss2 (length scores)))))"

text \<open>\<^verbatim>\<open>LossForRank.bi\<close> and \<^verbatim>\<open>LossForRank.__call__\<close>.\<close>

definition bi :: "LossForRank \<Rightarrow> scalar list \<Rightarrow> scalar list \<Rightarrow> error + scalar" where
  "bi self scores labels =
     ebind (fine self scores labels) (\<lambda>f.
     ebind (coarse self scores labels) (\<lambda>c.
       Inr (s_add (s_mul (Fin (1 / 2)) f) (s_mul (bce_bias self) c))))"

definition call :: "LossForRank \<Rightarrow> scalar list \<Rightarrow> scalar list \<Rightarrow> error + scalar" where
  "call self scores labels =
     (case loss_fn self of
        Bi \<Rightarrow> bi self scores labels
      | Fine \<Rightarrow> fine self scores labels
      | Coarse \<Rightarrow> coarse self scores labels)"

section \<open>Model outputs\<close>

text \<open>
  The artifacts the backbone passes through (\<^verbatim>\<open>past_key_values\<close>,
  \<^verbatim>\<open>hidden_states\<close>, \<^verbatim>\<open>attentions\<close>) are opaque here, each present or \<^verbatim>\<open>None\<close>.
  \<^verbatim>\<open>BaseModelOutputWithPast\<close> is what the backbone computes,
  \<^verbatim>\<open>CausalLMOutputWithPast\<close> what \<^verbatim>\<open>ans\<close> returns; \<^verbatim>\<open>RearOutput\<close> declares the same
  fields and \<^verbatim>\<open>rel_scores\<close>.
\<close>

typedecl artifact

record pass_through =
  past_key_values :: "artifact option"
  hidden_states :: "artifact option"
  attentions :: "artifact option"

record BaseModelOutputWithPast = pass_through +
  last_hidden_state :: "scalar list list list"

record CausalLMOutputWithPast = pass_through +
  loss :: "scalar option"
  logits :: "scalar list list list option"

record RearOutput = CausalLMOutputWithPast +
  rel_scores :: "scalar list list"

text \<open>
  \<^verbatim>\<open>outputs = self.model(..., return_dict=return_dict)\<close>: a \<^verbatim>\<open>ModelOutput\<close>, or with
  \<^verbatim>\<open>return_dict=False\<close> the plain tuple of its entries that are not \<^verbatim>\<open>None\<close>.
  \<^verbatim>\<open>outputs[0]\<close> is the last hidden state of either; \<^verbatim>\<open>outputs.<field>\<close> raises an
  AttributeError on a tuple; \<^verbatim>\<open>outputs[1:]\<close> are the remaining entries.
\<close>

datatype outputs = ModelOutput BaseModelOutputWithPast | Tuple BaseModelOutputWithPast

fun item0 :: "outputs \<Rightarrow> scalar list list list" where
  "item0 (ModelOutput r) = last_hidden_state r"
| "item0 (Tuple r) = last_hidden_state r"

fun getattr_outputs :: "outputs \<Rightarrow> (BaseModelOutputWithPast \<Rightarrow> 'a) \<Rightarrow> error + 'a" where
  "getattr_outputs (ModelOutput r) field = Inr (field r)"
| "getattr_outputs (Tuple r) field = Inl AttributeError"

fun items_from1 :: "outputs \<Rightarrow> artifact list" where
  "items_from1 (ModelOutput r) =
     List.map_filter id [past_key_values r, hidden_states r, attentions r]"
| "items_from1 (Tuple r) =
     List.map_filter id [past_key_values r, hidden_states r, attentions r]"

text \<open>The fields \<^verbatim>\<open>RearOutput\<close> declares: reading another attribute of a
  \<^verbatim>\<open>RearOutput\<close> raises an AttributeError, passing another keyword to its constructor
  a TypeError.\<close>

definition RearOutput_fields :: "string list" where
  "RearOutput_fields =
     [''rel_scores'', ''loss'', ''logits'', ''past_key_values'', ''hidden_states'', ''attentions'']"

definition getattr_RearOutput :: "string \<Rightarrow> error + unit" where
  "getattr_RearOutput name =
     (if name \<in> set RearOutput_fields then Inr () else Inl AttributeError)"

definition RearOutput_kwargs :: "string list \<Rightarrow> error + unit" where
  "RearOutput_kwargs names =
     (if list_all (\<lambda>name. name \<in> set RearOutput_fields) names then Inr () else Inl TypeError)"

section \<open>More tensor primitives\<close>

fun sequence :: "(error + 'a) list \<Rightarrow> error + 'a list" where
  "sequence [] = Inr []"
| "sequence (r # rs) = ebind r (\<lambda>v. ebind (sequence rs) (\<lambda>vs. Inr (v # vs)))"

text \<open>\<^verbatim>\<open>t.argmax(-1)\<close> of one row: the index of the first maximal value; an IndexError
  for a row of no element.\<close>

fun argmax_from :: "int \<Rightarrow> nat \<Rightarrow> nat \<Rightarrow> int list \<Rightarrow> nat" where
  "argmax_from best k i [] = k"
| "argmax_from best k i (x # xs) =
     (if best < x then argmax_from x i (Suc i) xs else argmax_from best k (Suc i) xs)"

definition argmax_last :: "int list \<Rightarrow> error + nat" where
  "argmax_last xs = (case xs of [] \<Rightarrow> Inl IndexError | x # rest \<Rightarrow> Inr (argmax_from x 0 1 rest))"

text \<open>Two index tensors used together are broadcast: equal lengths pair up, a tensor
  of one element is repeated, anything else is an IndexError.\<close>

definition broadcast_pairs :: "'a list \<Rightarrow> 'b list \<Rightarrow> error + ('a \<times> 'b) list" where
  "broadcast_pairs xs ys =
     (if length xs = length ys then Inr (zip xs ys)
      else if length xs = 1 then Inr (map (\<lambda>y. (hd xs, y)) ys)
      else if length ys = 1 then Inr (map (\<lambda>x. (x, hd ys)) xs)
      else Inl IndexError)"

text \<open>\<^verbatim>\<open>nn.Linear(hidden_size, num_labels, bias=False)\<close> with weight \<open>W\<close> (one row per
  label): the products of the input with the rows of \<open>W\<close>, no bias added.\<close>

definition linear :: "scalar list list \<Rightarrow> scalar list \<Rightarrow> error + scalar list" where
  "linear W h =
     (if list_ex (\<lambda>w. length w \<noteq> length h) W then Inl RuntimeError
      else Inr (map (\<lambda>w. s_sum (map2 s_mul h w)) W))"

text \<open>
  \<^verbatim>\<open>x[:, a:b].view(-1, ...)\<close>: the sequences of \<open>x\<close>, each cut by the slice, laid out as
  one list. The slice shares the storage of \<open>x\<close>, so with two or more sequences of two
  or more remaining positions it is not contiguous and \<^verbatim>\<open>view\<close> raises a RuntimeError.
\<close>

definition view_sliced :: "'a list list \<Rightarrow> error + 'a list" where
  "view_sliced rows =
     (if 2 \<le> length rows \<and> list_ex (\<lambda>r. 2 \<le> length r) rows then Inl RuntimeError
      else Inr (concat rows))"

text \<open>
  \<^verbatim>\<open>t[mask, pos, tok] = v\<close> on a three-dimensional tensor \<open>t\<close>, with a boolean mask, an
  index tensor \<open>pos\<close> and an integer \<open>tok\<close>. A boolean mask addresses as many dimensions
  as it has: a two-dimensional mask, \<open>pos\<close> and \<open>tok\<close> are four indices for three
  dimensions, an IndexError. A one-dimensional mask selects sequences; they are
  broadcast with \<open>pos\<close>, and \<open>tok\<close> counts from the end when negative.
\<close>

datatype mask = Mask1 "bool list" | Mask2 "bool list list"

fun mask_ndim :: "mask \<Rightarrow> nat" where
  "mask_ndim (Mask1 m) = 1"
| "mask_ndim (Mask2 m) = 2"

fun mask_rows :: "mask \<Rightarrow> nat list" where
  "mask_rows (Mask1 m) = filter (\<lambda>b. m ! b) [0 ..< length m]"
| "mask_rows (Mask2 m) = []"

fun mask_length :: "mask \<Rightarrow> nat" where
  "mask_length (Mask1 m) = length m"
| "mask_length (Mask2 m) = length m"

definition put3 :: "'a list list list \<Rightarrow> nat \<Rightarrow> nat \<Rightarrow> nat \<Rightarrow> 'a \<Rightarrow> 'a list list list" where
  "put3 t b p k v = t[b := (t ! b)[p := (t ! b ! p)[k := v]]]"

text \<open>Python's index normalisation for a dimension of size \<open>n\<close>.\<close>

definition norm_index :: "nat \<Rightarrow> int \<Rightarrow> error + nat" where
  "norm_index n k =
     (if 0 \<le> k \<and> k < int n then Inr (nat k)
      else if k < 0 \<and> 0 \<le> k + int n then Inr (nat (k + int n))
      else Inl IndexError)"

fun put_all ::
  "'a list list list \<Rightarrow> (nat \<times> nat) list \<Rightarrow> int \<Rightarrow> 'a \<Rightarrow> error + 'a list list list" where
  "put_all t [] tok v = Inr t"
| "put_all t ((b, p) # idx) tok v =
     (if length t \<le> b \<or> length (t ! b) \<le> p then Inl IndexError
      else ebind (norm_index (length (t ! b ! p)) tok) (\<lambda>k.
           put_all (put3 t b p k v) idx tok v))"

definition setitem_mask_pos_tok ::
  "scalar list list list \<Rightarrow> mask \<Rightarrow> nat list \<Rightarrow> int \<Rightarrow> scalar \<Rightarrow> error + scalar list list list" where
  "setitem_mask_pos_tok t m pos tok v =
     (if 3 < mask_ndim m + 1 + 1 then Inl IndexError
      else if mask_length m \<noteq> length t then Inl IndexError
      else ebind (broadcast_pairs (mask_rows m) pos) (\<lambda>idx. put_all t idx tok v))"

definition full3 :: "nat \<Rightarrow> nat \<Rightarrow> nat \<Rightarrow> 'a \<Rightarrow> 'a list list list" where
  "full3 b t v x = replicate b (replicate t (replicate v x))"

section \<open>LlamaForRear\<close>

text \<open>
  The fields \<^verbatim>\<open>_additional_init\<close> sets that the methods below read. \<open>rel_score\<close> is
  the weight of the bias-free linear layer. \<open>lm_head\<close> (the backbone's projection of
  one hidden vector to vocabulary logits, with \<open>out_features\<close> outputs) and \<open>ans_fn\<close>
  (\<^verbatim>\<open>CrossEntropyLoss()\<close> on the flattened logits and labels, which may raise) belong
  to the libraries and are parameters.
\<close>

record LlamaForRear =
  beta :: "scalar option"
  rel_token_id :: int
  irr_token_id :: int
  rel_score :: "scalar list list"
  gen_score_id :: int
  rel_eval_fn :: LossForRank
  threshold :: scalar
  lm_head :: "scalar list \<Rightarrow> scalar list"
  out_features :: nat
  ans_fn :: "scalar list list \<Rightarrow> int list \<Rightarrow> error + scalar"

text \<open>
  \<^verbatim>\<open>_additional_init\<close> builds the engine with the keywords below;
  \<^verbatim>\<open>LossForRank.__init__\<close> accepts the parameters below and no \<^verbatim>\<open>**kwargs\<close>. A keyword
  that is not a parameter is a TypeError.
\<close>

definition LossForRank_init_params :: "string list" where
  "LossForRank_init_params =
     [''is_warm_up'', ''bias'', ''psg_num'', ''ignore_minor_diff'', ''bce_bias'']"

definition additional_init_keywords :: "string list" where
  "additional_init_keywords =
     [''is_warm_up'', ''psg_num'', ''bias'', ''ignore_mirror_diff'', ''bce_bias'']"

definition bind_keywords :: "string list \<Rightarrow> string list \<Rightarrow> error + unit" where
  "bind_keywords params keywords =
     (if list_all (\<lambda>k. k \<in> set params) keywords then Inr () else Inl TypeError)"

text \<open>\<^verbatim>\<open>LlamaForRear.ans\<close>.\<close>

definition ans ::
  "LlamaForRear \<Rightarrow> outputs \<Rightarrow> int list list option \<Rightarrow> error + CausalLMOutputWithPast" where
  "ans self outputs labels =
     (let hidden = item0 outputs;
          lgts = map (map (lm_head self)) hidden
      in ebind (case labels of
                  None \<Rightarrow> Inr (Fin 0)
                | Some lab \<Rightarrow>
                    ebind (view_sliced (map butlast lgts)) (\<lambda>shift_logits.
                    ebind (view_sliced (map tl lab)) (\<lambda>shift_labels.
                      ans_fn self shift_logits shift_labels))) (\<lambda>loss0.
         ebind (getattr_outputs outputs past_key_values) (\<lambda>pkv.
         ebind (getattr_outputs outputs hidden_states) (\<lambda>hs.
         ebind (getattr_outputs outputs attentions) (\<lambda>att.
           Inr \<lparr>past_key_values = pkv, hidden_states = hs, attentions = att,
                loss = Some loss0, logits = Some lgts\<rparr>)))))"

text \<open>Lines 220 to 227 of \<^verbatim>\<open>LlamaForRear.rel_eval\<close>: the sentinel positions and the
  relevance scores.\<close>

definition rel_logits_of ::
  "LlamaForRear \<Rightarrow> int list list \<Rightarrow> scalar list list list \<Rightarrow> error + (nat list \<times> scalar list list)" where
  "rel_logits_of self input_ids hidden =
     ebind (sequence (map (\<lambda>ids. argmax_last (map (\<lambda>t. if t = gen_score_id self then 1 else 0) ids))
                        input_ids)) (\<lambda>rel_position.
     ebind (broadcast_pairs [0 ..< length hidden] rel_position) (\<lambda>idx.
     ebind (sequence (map (\<lambda>(b, p). if p < length (hidden ! b) then Inr (hidden ! b ! p)
                                       else Inl IndexError) idx)) (\<lambda>rel_hidden_states.
     ebind (sequence (map (linear (rel_score self)) rel_hidden_states)) (\<lambda>rel_logits.
       Inr (rel_position, rel_logits)))))"

text \<open>\<^verbatim>\<open>LlamaForRear.rel_eval\<close>.\<close>

definition rel_eval ::
  "LlamaForRear \<Rightarrow> int list list \<Rightarrow> outputs \<Rightarrow> scalar list option \<Rightarrow> error + RearOutput" where
  "rel_eval self input_ids outputs classes =
     (let hidden = item0 outputs
      in ebind (rel_logits_of self input_ids hidden) (\<lambda>(rel_position, rel_logits).
         ebind (case classes of
                  None \<Rightarrow> Inr None
                | Some c \<Rightarrow> ebind (call (rel_eval_fn self) (concat rel_logits) c)
                              (\<lambda>l. Inr (Some l))) (\<lambda>loss0.
         ebind (case beta self of
                  Some b \<Rightarrow> Inr None
                | None \<Rightarrow>
                    ebind (setitem_mask_pos_tok
                             (full3 (length hidden) (case hidden of [] \<Rightarrow> 0 | h # _ \<Rightarrow> length h)
                                (out_features self) (Fin (- 100)))
                             (Mask2 (map (map (\<lambda>x. s_gt x (threshold self))) rel_logits))
                             rel_position (rel_token_id self) (Fin 100)) (\<lambda>lg1.
                    ebind (setitem_mask_pos_tok lg1
                             (Mask2 (map (map (\<lambda>x. s_le x (threshold self))) rel_logits))
                             rel_position (irr_token_id self) (Fin 100)) (\<lambda>lg2.
                      Inr (Some lg2)))) (\<lambda>logits0.
         ebind (getattr_outputs outputs past_key_values) (\<lambda>pkv.
         ebind (getattr_outputs outputs hidden_states) (\<lambda>hs.
         ebind (getattr_outputs outputs attentions) (\<lambda>att.
           Inr \<lparr>past_key_values = pkv, hidden_states = hs, attentions = att,
                loss = loss0, logits = logits0, rel_scores = rel_logits\<rparr>)))))))"

text \<open>
  \<^verbatim>\<open>LlamaForRear.forward\<close>. \<open>backbone\<close> is what \<^verbatim>\<open>self.model\<close> computes for the call;
  the result is the \<^verbatim>\<open>CausalLMOutputWithPast\<close> of \<^verbatim>\<open>ans\<close>, a \<^verbatim>\<open>RearOutput\<close>, or the
  tuple of the total loss, the generation logits and \<^verbatim>\<open>outputs[1:]\<close>.
\<close>

datatype forward_result =
    OfAns CausalLMOutputWithPast
  | OfRear RearOutput
  | OfTuple scalar "scalar list list list option" "artifact list"

definition forward ::
  "LlamaForRear \<Rightarrow> int list list \<Rightarrow> BaseModelOutputWithPast \<Rightarrow> int list list option \<Rightarrow>
   scalar list option \<Rightarrow> bool \<Rightarrow> error + forward_result" where
  "forward self input_ids backbone labels classes return_dict =
     (let outputs = (if return_dict then ModelOutput backbone else Tuple backbone)
      in case beta self of
           None \<Rightarrow>
             (case input_ids of
                [] \<Rightarrow> Inl IndexError
              | ids0 # _ \<Rightarrow>
                  if rel_token_id self \<in> set ids0 \<or> irr_token_id self \<in> set ids0
                  then ebind (ans self outputs labels) (\<lambda>r. Inr (OfAns r))
                  else ebind (rel_eval self input_ids outputs None) (\<lambda>r. Inr (OfRear r)))
         | Some b \<Rightarrow>
             ebind (ans self outputs labels) (\<lambda>sft_output.
             ebind (rel_eval self input_ids outputs classes) (\<lambda>rank_output.
             ebind (case (loss sft_output, loss rank_output) of
                      (Some g, Some r) \<Rightarrow> Inr (s_add g (s_mul b r))
                    | _ \<Rightarrow> Inl TypeError) (\<lambda>loss0.
               if \<not> return_dict
               then Inr (OfTuple loss0 (logits sft_output) (items_from1 outputs))
               else ebind (getattr_RearOutput ''verify_scores'') (\<lambda>verify_scores.
                    ebind (getattr_outputs outputs past_key_values) (\<lambda>pkv.
                    ebind (getattr_outputs outputs hidden_states) (\<lambda>hs.
                    ebind (getattr_outputs outputs attentions) (\<lambda>att.
                    ebind (RearOutput_kwargs [''loss'', ''logits'', ''rel_scores'', ''verify_scores'',
                             ''past_key_values'', ''hidden_states'', ''attentions'']) (\<lambda>_.
                      Inr (OfRear \<lparr>past_key_values = pkv, hidden_states = hs, attentions = att,
                                   loss = Some loss0, logits = logits sft_output,
                                   rel_scores = rel_scores rank_output\<rparr>))))))))))"

text \<open>The loss a result of \<open>forward\<close> carries.\<close>

fun result_loss :: "forward_result \<Rightarrow> scalar option" where
  "result_loss (OfAns r) = loss r"
| "result_loss (OfRear r) = loss r"
| "result_loss (OfTuple l lg rest) = Some l"

text \<open>The position the specification names: the first occurrence of the token, and 0
  when the token does not occur.\<close>

definition sentinel_position :: "int \<Rightarrow> int list \<Rightarrow> nat" where
  "sentinel_position tok ids =
     (if tok \<in> set ids then length (takeWhile (\<lambda>t. t \<noteq> tok) ids) else 0)"

text \<open>The score the specification names: a linear map of the hidden vector with no
  bias, one output per row \<open>w\<close> of the weight, the sum of the products \<open>w\<^sub>k * h\<^sub>k\<close>
  and no constant term.\<close>

fun weighted_sum :: "scalar list \<Rightarrow> scalar list \<Rightarrow> scalar" where
  "weighted_sum (w # ws) (x # xs) = s_add (s_mul w x) (weighted_sum ws xs)"
| "weighted_sum ws xs = Fin 0"

definition bias_free_projection :: "scalar list list \<Rightarrow> scalar list \<Rightarrow> scalar list" where
  "bias_free_projection W h = map (\<lambda>w. weighted_sum w h) W"

section \<open>Reference computations of the loss terms\<close>

text \<open>
  The pairwise term as the specification words it: groups of \<open>n\<close>, all ordered index
  pairs of a group (self-pairs included), the pairs kept whose true difference exceeds
  the threshold and is finite, the kept true differences binarised, and the mean
  binary cross-entropy with logits over all kept pairs of the batch.
\<close>

definition pairwise_spec :: "scalar \<Rightarrow> nat \<Rightarrow> scalar list \<Rightarrow> scalar list \<Rightarrow> scalar" where
  "pairwise_spec thr n scores labels =
     (let kept = [(s_sub (s ! i) (s ! j), s_sub (l ! i) (l ! j)).
                    (s, l) \<leftarrow> zip (rows_of n scores) (rows_of n labels),
                    i \<leftarrow> [0 ..< n], j \<leftarrow> [0 ..< n],
                    s_gt (s_sub (l ! i) (l ! j)) thr \<and> s_isfinite (s_sub (l ! i) (l ! j))]
      in compute_loss ReduceMean (map fst kept)
           (map (\<lambda>(p, d). if s_gt d (Fin 0) then Fin 1 else Fin 0) kept))"

text \<open>The same computation with the self-pairs left out of the candidates.\<close>

definition off_diagonal :: "(nat \<times> nat) list \<Rightarrow> (nat \<times> nat) list" where
  "off_diagonal pairs = filter (\<lambda>(i, j). i \<noteq> j) pairs"

text \<open>
  The pointwise term as the specification words it: positives are the examples with
  \<^verbatim>\<open>label >= 0.5\<close>, negatives those with \<^verbatim>\<open>label < 0.5\<close>; a summand of an empty
  subset is left out. \<open>pointwise_complement\<close> is the form the code has: the negatives
  are the examples that are not positives; the two agree when no label is NaN.
\<close>

definition s_lt :: "scalar \<Rightarrow> scalar \<Rightarrow> bool" where
  "s_lt a b = s_gt b a"

definition pointwise_spec :: "scalar \<Rightarrow> scalar list \<Rightarrow> scalar list \<Rightarrow> scalar" where
  "pointwise_spec negative_bias scores labels =
     (let positives = [s. (s, l) \<leftarrow> zip scores labels, s_ge l (Fin (1 / 2))];
          negatives = [s. (s, l) \<leftarrow> zip scores labels, s_lt l (Fin (1 / 2))];
          pos_term = (if positives = [] then Fin 0
                      else compute_loss ReduceSum positives (map (\<lambda>_. Fin 1) positives));
          neg_term = (if negatives = [] then Fin 0
                      else s_mul negative_bias
                             (compute_loss ReduceSum negatives (map (\<lambda>_. Fin 0) negatives)))
      in s_div_count (s_add pos_term neg_term) (length scores))"

definition pointwise_complement :: "scalar \<Rightarrow> scalar list \<Rightarrow> scalar list \<Rightarrow> scalar" where
  "pointwise_complement negative_bias scores labels =
     (let positives = [s. (s, l) \<leftarrow> zip scores labels, s_ge l (Fin (1 / 2))];
          negatives = [s. (s, l) \<leftarrow> zip scores labels, \<not> s_ge l (Fin (1 / 2))];
          pos_term = (if positives = [] then Fin 0
                      else compute_loss ReduceSum positives (map (\<lambda>_. Fin 1) positives));
          neg_term = (if negatives = [] then Fin 0
                      else s_mul negative_bias
                             (compute_loss ReduceSum negatives (map (\<lambda>_. Fin 0) negatives)))
      in s_div_count (s_add pos_term neg_term) (length scores))"

text \<open>The pairs of one group that pass the mask of \<^verbatim>\<open>fine\<close> (used in the proofs).\<close>

definition kept_pairs :: "scalar \<Rightarrow> (nat \<times> nat) list \<Rightarrow> scalar list \<Rightarrow> (nat \<times> nat) list" where
  "kept_pairs thr pairs l =
     filter (\<lambda>(i, j). s_gt (s_sub (l ! i) (l ! j)) thr \<and> \<not> s_isinf (s_sub (l ! i) (l ! j))) pairs"

text \<open>An engine built with the defaults of \<^verbatim>\<open>LossForRank.__init__\<close> for two candidates
  per group.\<close>

definition engine2 :: LossForRank where
  "engine2 = \<lparr>bias = Fin 1, psg_num = 2, ignore_minor_diff = Fin 0, bce_bias = Fin (1 / 2),
              loss_fn = Bi\<rparr>"

text \<open>A model with the default token ids and threshold, a scoring weight that reads
  the first hidden coordinate, and stub library parts; a batch of two sequences of one
  token, the sentinel.\<close>

definition rear0 :: LlamaForRear where
  "rear0 = \<lparr>beta = Some (Fin (1 / 2)), rel_token_id = 32001, irr_token_id = 32003,
            rel_score = [[Fin 1, Fin 0]], gen_score_id = 32002, rel_eval_fn = engine2,
            threshold = Fin 13, lm_head = (\<lambda>h. h), out_features = 2,
            ans_fn = (\<lambda>lg lab. Inr (Fin 2))\<rparr>"

text \<open>The same model with a weight of two labels.\<close>

definition rear2 :: LlamaForRear where
  "rear2 = rear0\<lparr>rel_score := [[Fin 2, Fin 3], [Fin 1, Fin (- 1)]]\<rparr>"

definition ids0 :: "int list list" where
  "ids0 = [[32002], [32002]]"

definition backbone0 :: BaseModelOutputWithPast where
  "backbone0 = \<lparr>past_key_values = None, hidden_states = None, attentions = None,
                last_hidden_state = [[[Fin 0, Fin 1]], [[Fin 0, Fin 2]]]\<rparr>"

section \<open>The loss engine: construction and terms\<close>

lemma LossForRank_init_bi:
  "LossForRank_init False b n t w =
     Inr \<lparr>bias = b, psg_num = n, ignore_minor_diff = t, bce_bias = w, loss_fn = Bi\<rparr>"
  by (simp add: LossForRank_init_def getattr_method_def LossForRank_methods_def ebind_def)

lemma call_bi:
  "loss_fn self = Bi \<Longrightarrow> fine self scores labels = Inr f \<Longrightarrow> coarse self scores labels = Inr c \<Longrightarrow>
   call self scores labels = Inr (s_add (s_mul (Fin (1 / 2)) f) (s_mul (bce_bias self) c))"
  by (simp add: call_def bi_def ebind_def)

text \<open>
  C1. A warm-up engine is to evaluate the pointwise term only. The constructor binds
  \<^verbatim>\<open>self.bce\<close> for warm-up, a name the class does not define (the pointwise term is
  the method \<^verbatim>\<open>coarse\<close>): construction with \<^verbatim>\<open>is_warm_up=True\<close> raises an
  AttributeError for every choice of the other parameters, so no warm-up engine exists.
\<close>

theorem LossForRank_init_warm_up_raises:
  "LossForRank_init True b n t w = Inl AttributeError"
  by (simp add: LossForRank_init_def getattr_method_def LossForRank_methods_def ebind_def)

section \<open>The pairwise and the pointwise term\<close>

lemma s_add_zero: "s_add (Fin 0) x = x" "s_add x (Fin 0) = x"
  by (cases x; simp)+

lemma sel_row: "map fst (filter snd (zip (map f cs) (map g cs))) = map f (filter g cs)"
  by (induction cs) simp_all

lemma sel_rows:
  "length Y = length L \<Longrightarrow>
   map fst (filter snd (zip (concat (map (\<lambda>r. map (f r) cs) Y)) (concat (map (\<lambda>r. map (g r) cs) L))))
   = concat (map (\<lambda>(y, l). map (f y) (filter (g l) cs)) (zip Y L))"
  by (induction Y L rule: list_induct2) (simp_all add: sel_row)

lemma masked_select_rows:
  "masked_select (map (\<lambda>r. map (f r) cs) Y) (map (\<lambda>r. map (g r) cs) L)
   = (if length Y \<noteq> length L then Inl IndexError
      else Inr (concat (map (\<lambda>(y, l). map (f y) (filter (g l) cs)) (zip Y L))))"
  by (simp add: masked_select_def sel_rows o_def map_replicate_const)

lemma concat_map2_snd:
  "length Y = length L \<Longrightarrow> concat (map (\<lambda>(y, l). F l) (zip Y L)) = concat (map F L)"
  by (induction Y L rule: list_induct2) simp_all

lemma comp_product:
  "concat (map (\<lambda>i. concat (map (\<lambda>j. if c i j then [h i j] else []) B)) A)
   = map (\<lambda>(i, j). h i j) (filter (\<lambda>(i, j). c i j) (List.product A B))"
proof (induction A)
  case Nil show ?case by simp
next
  case (Cons a A)
  have "concat (map (\<lambda>j. if c a j then [h a j] else []) B)
        = map (\<lambda>(i, j). h i j) (filter (\<lambda>(i, j). c i j) (map (Pair a) B))"
    by (induction B) simp_all
  with Cons show ?case by simp
qed

lemma gt_isinf_finite: "(s_gt d t \<and> \<not> s_isinf d) = (s_gt d t \<and> s_isfinite d)"
  by (cases d) (simp_all add: s_isinf_def)

lemma length_rows_of: "length (rows_of n xs) = length xs div n"
  by (simp add: rows_of_def)

text \<open>What \<open>fine_on\<close> computes, with the tensor operations resolved.\<close>

lemma fine_on_char:
  "fine_on cs self scores labels =
     ebind (view_rows (psg_num self) scores) (\<lambda>Y.
     ebind (view_rows (psg_num self) labels) (\<lambda>L.
       if length Y \<noteq> length L then Inl IndexError
       else Inr (compute_loss ReduceMean
              (concat (map (\<lambda>(y, l). map (\<lambda>(i, j). s_sub (y ! i) (y ! j))
                              (kept_pairs (ignore_minor_diff self) cs l)) (zip Y L)))
              (map (\<lambda>d. if s_gt d (Fin 0) then Fin 1 else Fin 0)
                 (concat (map (\<lambda>l. map (\<lambda>(i, j). s_sub (l ! i) (l ! j))
                                 (kept_pairs (ignore_minor_diff self) cs l)) L))))))"
proof -
  let ?d = "\<lambda>r (i, j). s_sub ((r::scalar list) ! i) (r ! j)"
  let ?m = "\<lambda>r (i, j). s_gt (s_sub ((r::scalar list) ! i) (r ! j)) (ignore_minor_diff self)
                        \<and> \<not> s_isinf (s_sub (r ! i) (r ! j))"
  have pd: "pair_diffs (gather_pairs cs R) = map (\<lambda>r. map (?d r) cs) R" for R
    by (simp add: pair_diffs_def gather_pairs_def o_def split_def)
  have mk: "map (map (\<lambda>d. s_gt d (ignore_minor_diff self) \<and> \<not> s_isinf d)) (pair_diffs (gather_pairs cs L))
            = map (\<lambda>r. map (?m r) cs) L" for L
    by (simp add: pd o_def split_def)
  have s1: "masked_select (pair_diffs (gather_pairs cs Y))
              (map (map (\<lambda>d. s_gt d (ignore_minor_diff self) \<and> \<not> s_isinf d)) (pair_diffs (gather_pairs cs L)))
            = (if length Y \<noteq> length L then Inl IndexError
               else Inr (concat (map (\<lambda>(y, l). map (?d y) (kept_pairs (ignore_minor_diff self) cs l)) (zip Y L))))" for Y L
    unfolding mk unfolding pd kept_pairs_def by (rule masked_select_rows)
  show ?thesis
    apply (simp only: fine_on_def Let_def)
    apply (simp only: s1)
    apply (simp add: ebind_def zip_same_conv_map o_def split: sum.splits)
    done
qed

text \<open>
  C2. For scores and labels of one length, a multiple of the group size \<open>n\<close>,
  \<^verbatim>\<open>fine\<close> returns the reference computation: groups of \<open>n\<close>, all ordered index pairs
  of a group with the self-pairs, the pairs kept whose true difference exceeds the
  threshold and is finite, targets \<^verbatim>\<open>true_diff > 0\<close>, and the mean binary
  cross-entropy with logits over the kept pairs of the whole batch. The code tests
  \<^verbatim>\<open>~isinf\<close> where the claim says finite; a NaN difference fails the comparison with
  the threshold, so the two agree.
\<close>

theorem fine_pairwise_spec:
  assumes "0 < n" "psg_num self = int n" "length scores = length labels" "length scores mod n = 0"
  shows "fine self scores labels = Inr (pairwise_spec (ignore_minor_diff self) n scores labels)"
proof -
  let ?Y = "rows_of n scores" and ?L = "rows_of n labels"
  let ?t = "ignore_minor_diff self"
  let ?cs = "List.product [0 ..< n] [0 ..< n]"
  let ?kept = "concat (map (\<lambda>(s, l). map (\<lambda>(i, j). (s_sub (s ! i) (s ! j), s_sub (l ! i) (l ! j)))
        (filter (\<lambda>(i, j). s_gt (s_sub (l ! i) (l ! j)) ?t \<and> s_isfinite (s_sub (l ! i) (l ! j))) ?cs))
        (zip ?Y ?L))"
  have len: "length ?Y = length ?L" using assms by (simp add: length_rows_of)
  have vs: "view_rows (psg_num self) scores = Inr ?Y" "view_rows (psg_num self) labels = Inr ?L"
    using assms by (simp_all add: view_rows_def zmod_int flip: of_nat_mod)
  have kept: "[(s_sub (s ! i) (s ! j), s_sub (l ! i) (l ! j)).
                    (s, l) \<leftarrow> zip ?Y ?L, i \<leftarrow> [0 ..< n], j \<leftarrow> [0 ..< n],
                    s_gt (s_sub (l ! i) (l ! j)) ?t \<and> s_isfinite (s_sub (l ! i) (l ! j))] = ?kept"
    by (simp add: comp_product split_def)
  have f1: "map fst ?kept = concat (map (\<lambda>(y, l). map (\<lambda>(i, j). s_sub (y ! i) (y ! j))
            (kept_pairs ?t ?cs l)) (zip ?Y ?L))"
    by (simp add: map_concat o_def split_def gt_isinf_finite kept_pairs_def)
  have f2: "map (\<lambda>(p, d). if s_gt d (Fin 0) then Fin 1 else Fin 0) ?kept
      = map (\<lambda>d. if s_gt d (Fin 0) then Fin 1 else Fin 0)
         (concat (map (\<lambda>l. map (\<lambda>(i, j). s_sub (l ! i) (l ! j)) (kept_pairs ?t ?cs l)) ?L))"
    unfolding concat_map2_snd [OF len, symmetric]
    by (simp add: map_concat o_def split_def gt_isinf_finite kept_pairs_def)
  have "fine self scores labels = Inr (compute_loss ReduceMean (map fst ?kept)
          (map (\<lambda>(p, d). if s_gt d (Fin 0) then Fin 1 else Fin 0) ?kept))"
    unfolding f1 f2 fine_def fine_on_char vs
    using assms(1,2) len by (simp add: ebind_def document_pairs_candidates_def)
  then show ?thesis
    unfolding pairwise_spec_def Let_def kept .
qed

text \<open>The difference of a label with itself is 0 or NaN; neither exceeds a threshold
  that is at least 0.\<close>

lemma nonneg_self_diff: "s_ge t (Fin 0) \<Longrightarrow> \<not> s_gt (s_sub x x) t"
  by (cases x; cases t) (auto simp: s_sub_def s_ge_def)

lemma kept_pairs_off_diagonal:
  "s_ge t (Fin 0) \<Longrightarrow> kept_pairs t (off_diagonal cs) l = kept_pairs t cs l"
  unfolding kept_pairs_def off_diagonal_def filter_filter
  by (rule filter_cong) (auto dest: nonneg_self_diff)

text \<open>
  C10. For a threshold that is at least 0 the self-pairs never pass the mask of
  \<^verbatim>\<open>fine\<close>: on every input \<^verbatim>\<open>fine\<close> returns what the same computation returns on the
  off-diagonal ordered pairs only (the same loss, or the same error).
\<close>

theorem fine_off_diagonal:
  assumes "s_ge (ignore_minor_diff self) (Fin 0)"
  shows "fine self scores labels =
         fine_on (off_diagonal (document_pairs_candidates (nat (psg_num self)))) self scores labels"
  unfolding fine_def fine_on_char kept_pairs_off_diagonal [OF assms] ..

lemma rows2: "rows_of 2 [a, b] = [[a, b]]"
  by (simp add: rows_of_def)

lemma pairs2: "document_pairs_candidates 2 = [(0, 0), (0, 1), (1, 0), (1, 1)]"
  by (simp add: document_pairs_candidates_def upt_rec)

theorem fine_pairwise_spec_witness:
  "(0::nat) < 2 \<and> psg_num engine2 = int 2 \<and> length [Fin 3, Fin 1] = length [Fin 1, Fin 0]
   \<and> length [Fin 3, Fin 1] mod 2 = 0
   \<and> fine engine2 [Fin 3, Fin 1] [Fin 1, Fin 0]
       = Inr (pairwise_spec (ignore_minor_diff engine2) 2 [Fin 3, Fin 1] [Fin 1, Fin 0])"
  using fine_pairwise_spec [of 2 engine2 "[Fin 3, Fin 1]" "[Fin 1, Fin 0]"]
  by (simp add: engine2_def)

theorem fine_off_diagonal_witness:
  "s_ge (ignore_minor_diff engine2) (Fin 0)
   \<and> fine engine2 [Fin 3, Fin 1] [Fin 1, Fin 0]
       = fine_on (off_diagonal (document_pairs_candidates (nat (psg_num engine2)))) engine2
           [Fin 3, Fin 1] [Fin 1, Fin 0]"
  using fine_off_diagonal [of engine2 "[Fin 3, Fin 1]" "[Fin 1, Fin 0]"]
  by (simp add: engine2_def s_ge_def)

text \<open>One group with a clear order: the single kept pair is \<open>(0, 1)\<close>.\<close>

lemma fine_example:
  "fine engine2 [Fin 3, Fin 1] [Fin 1, Fin 0] = Inr (Fin (ln (1 + exp (- 2))))"
  by (simp add: fine_def fine_on_char view_rows_def rows2 pairs2 ebind_def engine2_def
      kept_pairs_def s_sub_def s_isinf_def compute_loss_def bce_elem_def s_sum_def)

text \<open>
  C7. When every pair is filtered out the pairwise term is to contribute exactly 0.
  For one group with equal labels the mask keeps nothing, the mean over no element is
  NaN, and the loss of the engine is NaN too; no error is raised. \<^verbatim>\<open>coarse\<close> guards
  its empty subsets, \<^verbatim>\<open>fine\<close> does not.
\<close>

theorem fine_all_filtered_nan:
  "fine engine2 [Fin 1, Fin 2] [Fin 1, Fin 1] = Inr NaN
   \<and> call engine2 [Fin 1, Fin 2] [Fin 1, Fin 1] = Inr NaN"
proof -
  have f: "fine engine2 [Fin 1, Fin 2] [Fin 1, Fin 1] = Inr NaN"
    by (simp add: fine_def fine_on_char view_rows_def rows2 pairs2 ebind_def engine2_def
      kept_pairs_def s_sub_def s_isinf_def compute_loss_def s_sum_def)
  have c: "\<exists>c. coarse engine2 [Fin 1, Fin 2] [Fin 1, Fin 1] = Inr c"
    by (simp add: coarse_def mask_select1_def ebind_def Let_def)
  from f c show ?thesis
    by (auto simp: call_def bi_def ebind_def engine2_def)
qed

lemma select_comprehension:
  "map fst (filter snd (zip xs (map P ys))) = [s. (s, l) \<leftarrow> zip xs ys, P l]"
proof (induction xs arbitrary: ys)
  case Nil show ?case by simp
next
  case (Cons x xs) show ?case by (cases ys) (simp_all add: Cons.IH)
qed

text \<open>What \<^verbatim>\<open>coarse\<close> computes: the negatives are the complement of the positives.\<close>

lemma coarse_pointwise_complement:
  assumes "length scores = length labels"
  shows "coarse self scores labels = Inr (pointwise_complement (bias self) scores labels)"
  using assms
  by (simp add: coarse_def pointwise_complement_def mask_select1_def ebind_def Let_def
      select_comprehension o_def s_add_zero)

text \<open>A label that is not NaN and not \<^verbatim>\<open>>= 0.5\<close> is \<^verbatim>\<open>< 0.5\<close>.\<close>

lemma not_ge_half: "l \<noteq> NaN \<Longrightarrow> (\<not> s_ge l (Fin (1 / 2))) = s_lt l (Fin (1 / 2))"
  by (cases l) (auto simp: s_ge_def s_lt_def)

lemma negatives_without_NaN:
  "NaN \<notin> set ys \<Longrightarrow>
   [s. (s, l) \<leftarrow> zip xs ys, \<not> s_ge l (Fin (1 / 2))] = [s. (s, l) \<leftarrow> zip xs ys, s_lt l (Fin (1 / 2))]"
proof (induction xs arbitrary: ys)
  case Nil show ?case by simp
next
  case (Cons x xs)
  show ?case
  proof (cases ys)
    case Nil then show ?thesis by simp
  next
    case (Cons y ys')
    with Cons.prems have "y \<noteq> NaN" "NaN \<notin> set ys'" by auto
    with Cons.IH [of ys'] Cons show ?thesis by (simp add: not_ge_half)
  qed
qed

lemma pointwise_complement_spec:
  assumes "NaN \<notin> set labels"
  shows "pointwise_complement b scores labels = pointwise_spec b scores labels"
  unfolding pointwise_complement_def pointwise_spec_def negatives_without_NaN [OF assms]
  by (rule refl)

text \<open>
  C3. For scores and labels of one length, the labels relevance degrees or infinite
  (none of them NaN), \<^verbatim>\<open>coarse\<close> returns without an error: the sum binary
  cross-entropy of the positives (\<^verbatim>\<open>label >= 0.5\<close>) against ones, plus \<^verbatim>\<open>bias\<close>
  times that of the negatives (\<^verbatim>\<open>label < 0.5\<close>) against zeros, a summand of an empty
  subset left out, divided by the number of examples.
\<close>

theorem coarse_pointwise_spec:
  assumes "length scores = length labels" "NaN \<notin> set labels"
  shows "coarse self scores labels = Inr (pointwise_spec (bias self) scores labels)"
  using coarse_pointwise_complement [OF assms(1)] pointwise_complement_spec [OF assms(2)]
  by simp

theorem coarse_pointwise_spec_witness:
  "length [Fin 0, Fin 3, Fin 2] = length [Fin 1, Fin 0, NInf]
   \<and> NaN \<notin> set [Fin 1, Fin 0, NInf]
   \<and> coarse engine2 [Fin 0, Fin 3, Fin 2] [Fin 1, Fin 0, NInf]
       = Inr (pointwise_spec (bias engine2) [Fin 0, Fin 3, Fin 2] [Fin 1, Fin 0, NInf])"
  using coarse_pointwise_spec [of "[Fin 0, Fin 3, Fin 2]" "[Fin 1, Fin 0, NInf]" engine2]
  by simp

text \<open>An all-positive batch: the negative summand is left out.\<close>

lemma coarse_all_positive:
  "coarse engine2 [Fin 0, Fin 0] [Fin 1, Fin 1] = Inr (Fin (ln 2))"
  by (simp add: coarse_def mask_select1_def ebind_def s_ge_def compute_loss_def bce_elem_def
      s_sub_def s_sum_def engine2_def)

section \<open>The model head\<close>

text \<open>The keyword \<^verbatim>\<open>ignore_mirror_diff\<close> that \<^verbatim>\<open>_additional_init\<close> passes is not a
  parameter of \<^verbatim>\<open>LossForRank.__init__\<close>: building the engine there raises a TypeError.
  The methods below are functions of the fields of a model, however it was built.\<close>

lemma additional_init_raises:
  "bind_keywords LossForRank_init_params additional_init_keywords = Inl TypeError"
  by (simp add: bind_keywords_def LossForRank_init_params_def additional_init_keywords_def)

lemma ans_tuple_raises: "\<exists>e. ans self (Tuple r) labels = Inl e"
  by (simp add: ans_def ebind_def Let_def split: sum.splits option.splits)

lemma ans_loss: "ans self outs labels = Inr a \<Longrightarrow> \<exists>g. loss a = Some g"
  by (auto simp: ans_def ebind_def Let_def split: sum.splits option.splits)

lemma ans_no_labels: "ans self outs None = Inr a \<Longrightarrow> loss a = Some (Fin 0)"
  by (auto simp: ans_def ebind_def Let_def split: sum.splits option.splits)

lemma setitem_mask2: "setitem_mask_pos_tok t (Mask2 m) pos tok v = Inl IndexError"
  by (simp add: setitem_mask_pos_tok_def)

lemma rel_eval_score_only: "beta self = None \<Longrightarrow> \<exists>e. rel_eval self ids outs classes = Inl e"
  by (simp add: rel_eval_def ebind_def Let_def setitem_mask2 split: sum.splits option.splits prod.splits)

lemma rel_eval_no_classes: "rel_eval self ids outs None = Inr r \<Longrightarrow> loss r = None"
  by (auto simp: rel_eval_def ebind_def Let_def split: sum.splits option.splits prod.splits)

lemma getattr_verify_scores: "getattr_RearOutput ''verify_scores'' = Inl AttributeError"
  by (simp add: getattr_RearOutput_def RearOutput_fields_def)

lemma forward_combined:
  "beta self = Some b \<Longrightarrow> \<exists>e. forward self ids bb labels classes rd = Inl e"
proof (cases rd)
  case True
  assume "beta self = Some b"
  then show ?thesis using True
    by (auto simp: forward_def ebind_def Let_def getattr_verify_scores split: sum.splits option.splits prod.splits)
next
  case False
  assume b: "beta self = Some b"
  obtain e where "ans self (Tuple bb) labels = Inl e" using ans_tuple_raises by blast
  then show ?thesis using False b by (simp add: forward_def ebind_def Let_def)
qed

text \<open>
  C4. With \<^verbatim>\<open>beta\<close> a fixed weight \<^verbatim>\<open>forward\<close> is to return the total loss, the
  generation logits and the relevance scores. It computes both sub-results and the
  loss \<^verbatim>\<open>sft_output.loss + beta * rank_output.loss\<close>, and then raises on every input:
  with \<^verbatim>\<open>return_dict\<close> true it reads \<^verbatim>\<open>rank_output.verify_scores\<close>, which
  \<^verbatim>\<open>RearOutput\<close> does not declare; with \<^verbatim>\<open>return_dict\<close> false the backbone returns a
  tuple and \<^verbatim>\<open>ans\<close> reads \<^verbatim>\<open>outputs.past_key_values\<close> of it.
\<close>

theorem forward_combined_never_returns:
  "\<exists>e. forward (self\<lparr>beta := Some b\<rparr>) ids bb labels classes rd = Inl e"
  by (rule forward_combined) simp

text \<open>
  C5. With \<^verbatim>\<open>beta\<close> \<^verbatim>\<open>None\<close> \<^verbatim>\<open>rel_eval\<close> is to return override logits. The mask
  \<^verbatim>\<open>rel_logits > self.threshold\<close> has the two dimensions of \<^verbatim>\<open>rel_logits\<close> (batch and
  label), so \<^verbatim>\<open>logits[mask, rel_position, self.rel_token_id] = 100\<close> indexes four
  dimensions of a three-dimensional tensor: \<^verbatim>\<open>rel_eval\<close> raises on every input.
\<close>

theorem rel_eval_score_only_raises:
  "\<exists>e. rel_eval (self\<lparr>beta := None\<rparr>) ids outs classes = Inl e"
  by (rule rel_eval_score_only) simp

text \<open>
  C9, as amended. In combined mode with \<^verbatim>\<open>return_dict\<close> true \<^verbatim>\<open>forward\<close> never
  returns; when both sub-results are computed and the relevance sub-result carries a
  loss (relevance labels were supplied), the error is the AttributeError of
  \<^verbatim>\<open>rank_output.verify_scores\<close>.
\<close>

theorem forward_return_dict_raises:
  assumes "beta self = Some b"
  shows "(\<exists>e. forward self ids bb labels classes True = Inl e)
       \<and> (\<forall>sft rank r. ans self (ModelOutput bb) labels = Inr sft
             \<and> rel_eval self ids (ModelOutput bb) classes = Inr rank \<and> loss rank = Some r
             \<longrightarrow> forward self ids bb labels classes True = Inl AttributeError)"
proof (intro conjI allI impI)
  show "\<exists>e. forward self ids bb labels classes True = Inl e"
    using assms by (rule forward_combined)
next
  fix sft rank r
  assume h: "ans self (ModelOutput bb) labels = Inr sft
             \<and> rel_eval self ids (ModelOutput bb) classes = Inr rank \<and> loss rank = Some r"
  then obtain g where "loss sft = Some g" using ans_loss by blast
  with h assms show "forward self ids bb labels classes True = Inl AttributeError"
    by (simp add: forward_def ebind_def Let_def getattr_verify_scores)
qed

text \<open>Without relevance labels the combined loss cannot be formed: \<^verbatim>\<open>beta * None\<close>.\<close>

lemma forward_combined_no_classes:
  "beta self = Some b \<Longrightarrow> forward self ids bb labels None rd = Inr res \<Longrightarrow> False"
  by (auto simp: forward_def ebind_def Let_def dest: rel_eval_no_classes
      split: sum.splits option.splits if_splits)

text \<open>
  C8, as amended. A \<^verbatim>\<open>forward\<close> call without generation labels and without relevance
  labels that returns is in score-only or generation-only mode (\<^verbatim>\<open>beta\<close> is
  \<^verbatim>\<open>None\<close>): the relevance sub-result carries the loss \<^verbatim>\<open>None\<close>, the generation
  sub-result the loss 0 (the constant of \<^verbatim>\<open>ans\<close>), not \<^verbatim>\<open>None\<close>. What \<^verbatim>\<open>rel_eval\<close>
  returns without relevance labels carries the loss \<^verbatim>\<open>None\<close>.
\<close>

theorem forward_no_labels_loss:
  "(forward self ids bb None None rd = Inr res \<longrightarrow>
      beta self = None
      \<and> (case res of OfAns a \<Rightarrow> loss a = Some (Fin 0)
          | OfRear r \<Rightarrow> loss r = None
          | OfTuple l lg rest \<Rightarrow> False))
   \<and> (rel_eval self' ids' outs None = Inr r' \<longrightarrow> loss r' = None)"
proof (intro conjI impI)
  assume f: "forward self ids bb None None rd = Inr res"
  show "beta self = None"
    using f forward_combined_no_classes [of self _ ids bb None rd res] by (cases "beta self") auto
  then show "case res of OfAns a \<Rightarrow> loss a = Some (Fin 0)
          | OfRear r \<Rightarrow> loss r = None
          | OfTuple l lg rest \<Rightarrow> False"
    using f
    by (auto simp: forward_def ebind_def Let_def dest: ans_no_labels rel_eval_no_classes
        split: list.splits if_splits sum.splits)
next
  assume "rel_eval self' ids' outs None = Inr r'"
  then show "loss r' = None" by (rule rel_eval_no_classes)
qed

lemma beta_rear0: "beta rear0 = Some (Fin (1 / 2))"
  by (simp add: rear0_def)

lemma ans_rear0:
  "ans rear0 (ModelOutput backbone0) None =
     Inr \<lparr>past_key_values = None, hidden_states = None, attentions = None,
          loss = Some (Fin 0), logits = Some [[[Fin 0, Fin 1]], [[Fin 0, Fin 2]]]\<rparr>"
  by (simp add: ans_def rear0_def backbone0_def ebind_def)

lemma rel_logits_rear0:
  "rel_logits_of rear0 ids0 (last_hidden_state backbone0) = Inr ([0, 0], [[Fin 0], [Fin 0]])"
  by (simp add: rel_logits_of_def rear0_def ids0_def backbone0_def ebind_def argmax_last_def
      broadcast_pairs_def upt_rec linear_def s_sum_def)

lemma call_engine2:
  "call engine2 [Fin 0, Fin 0] [Fin 1, Fin 0] = Inr (Fin (ln 2))"
proof -
  have f: "fine engine2 [Fin 0, Fin 0] [Fin 1, Fin 0] = Inr (Fin (ln 2))"
    by (simp add: fine_def fine_on_def view_rows_def rows2 pairs2 ebind_def engine2_def
        gather_pairs_def pair_diffs_def masked_select_def
        s_sub_def s_isinf_def compute_loss_def bce_elem_def s_sum_def)
  have c: "coarse engine2 [Fin 0, Fin 0] [Fin 1, Fin 0] = Inr (Fin (ln 2))"
    by (simp add: coarse_def mask_select1_def ebind_def engine2_def s_ge_def
        s_sub_def compute_loss_def bce_elem_def s_sum_def)
  have lf: "loss_fn engine2 = Bi" "bce_bias engine2 = Fin (1 / 2)"
    by (simp_all add: engine2_def)
  show ?thesis
    by (simp add: call_def bi_def f c ebind_def lf)
qed

lemma rel_eval_rear0:
  "rel_eval rear0 ids0 (ModelOutput backbone0) (Some [Fin 1, Fin 0]) =
     Inr \<lparr>past_key_values = None, hidden_states = None, attentions = None,
          loss = Some (Fin (ln 2)), logits = None, rel_scores = [[Fin 0], [Fin 0]]\<rparr>"
  by (simp add: rel_eval_def rel_logits_rear0 ebind_def)
     (simp add: rear0_def call_engine2 backbone0_def)

lemma rel_eval_rear0_no_classes:
  "rel_eval rear0 ids0 (ModelOutput backbone0) None =
     Inr \<lparr>past_key_values = None, hidden_states = None, attentions = None,
          loss = None, logits = None, rel_scores = [[Fin 0], [Fin 0]]\<rparr>"
  by (simp add: rel_eval_def rel_logits_rear0 ebind_def)
     (simp add: rear0_def backbone0_def)

theorem forward_return_dict_raises_witness:
  "beta rear0 = Some (Fin (1 / 2))
   \<and> ans rear0 (ModelOutput backbone0) None =
       Inr \<lparr>past_key_values = None, hidden_states = None, attentions = None,
            loss = Some (Fin 0), logits = Some [[[Fin 0, Fin 1]], [[Fin 0, Fin 2]]]\<rparr>
   \<and> rel_eval rear0 ids0 (ModelOutput backbone0) (Some [Fin 1, Fin 0]) =
       Inr \<lparr>past_key_values = None, hidden_states = None, attentions = None,
            loss = Some (Fin (ln 2)), logits = None, rel_scores = [[Fin 0], [Fin 0]]\<rparr>
   \<and> forward rear0 ids0 backbone0 None (Some [Fin 1, Fin 0]) True = Inl AttributeError"
proof -
  have b: "beta rear0 = Some (Fin (1 / 2))" by (simp add: rear0_def)
  show ?thesis
    using forward_return_dict_raises [OF b, of ids0 backbone0 None "Some [Fin 1, Fin 0]"]
    by (simp add: b ans_rear0 rel_eval_rear0)
qed

text \<open>C9 as stated fails without relevance labels: \<^verbatim>\<open>beta * None\<close> raises a TypeError
  before the output is built.\<close>

theorem forward_no_classes_counterexample:
  "forward rear0 ids0 backbone0 None None True = Inl TypeError
   \<and> forward rear0 ids0 backbone0 None None True \<noteq> Inl AttributeError"
  by (simp add: forward_def beta_rear0 Let_def ans_rear0 rel_eval_rear0_no_classes ebind_def)

text \<open>C8 as stated fails on the generation branch: no labels, and the loss is 0.\<close>

theorem forward_generation_counterexample:
  "map_sum id result_loss
     (forward (rear0\<lparr>beta := None\<rparr>) [[32001], [32001]] backbone0 None None True)
     = Inr (Some (Fin 0))
   \<and> map_sum id result_loss
     (forward (rear0\<lparr>beta := None\<rparr>) [[32001], [32001]] backbone0 None None True)
     \<noteq> Inr None"
  by (simp add: forward_def ans_def ebind_def rear0_def backbone0_def)

theorem forward_no_labels_loss_witness:
  "forward (rear0\<lparr>beta := None\<rparr>) [[32001], [32001]] backbone0 None None True =
     Inr (OfAns \<lparr>past_key_values = None, hidden_states = None, attentions = None,
            loss = Some (Fin 0), logits = Some [[[Fin 0, Fin 1]], [[Fin 0, Fin 2]]]\<rparr>)
   \<and> beta (rear0\<lparr>beta := None\<rparr>) = None
   \<and> loss \<lparr>past_key_values = None, hidden_states = None, attentions = None,
            loss = Some (Fin 0), logits = Some [[[Fin 0, Fin 1]], [[Fin 0, Fin 2]]]\<rparr> = Some (Fin 0)
   \<and> rel_eval rear0 ids0 (ModelOutput backbone0) None =
       Inr \<lparr>past_key_values = None, hidden_states = None, attentions = None,
            loss = None, logits = None, rel_scores = [[Fin 0], [Fin 0]]\<rparr>
   \<and> loss \<lparr>past_key_values = None, hidden_states = None, attentions = None,
            loss = None, logits = None, rel_scores = [[Fin 0], [Fin 0]]\<rparr> = None"
proof -
  have f: "forward (rear0\<lparr>beta := None\<rparr>) [[32001], [32001]] backbone0 None None True =
     Inr (OfAns \<lparr>past_key_values = None, hidden_states = None, attentions = None,
            loss = Some (Fin 0), logits = Some [[[Fin 0, Fin 1]], [[Fin 0, Fin 2]]]\<rparr>)"
    by (simp add: forward_def ans_def ebind_def rear0_def backbone0_def)
  show ?thesis
    using forward_no_labels_loss [of "rear0\<lparr>beta := None\<rparr>" "[[32001], [32001]]" backbone0 True
        "OfAns \<lparr>past_key_values = None, hidden_states = None, attentions = None,
            loss = Some (Fin 0), logits = Some [[[Fin 0, Fin 1]], [[Fin 0, Fin 2]]]\<rparr>"
        rear0 ids0 "ModelOutput backbone0"
        "\<lparr>past_key_values = None, hidden_states = None, attentions = None,
            loss = None, logits = None, rel_scores = [[Fin 0], [Fin 0]]\<rparr>"]
    by (simp add: f rel_eval_rear0_no_classes)
qed

lemma forward_rear0_score_only:
  "forward (rear0\<lparr>beta := None\<rparr>) ids0 backbone0 None None True = Inl IndexError"
  by (simp add: forward_def rel_eval_def rel_logits_of_def ids0_def backbone0_def ebind_def argmax_last_def
      broadcast_pairs_def upt_rec linear_def s_sum_def setitem_mask2 rear0_def)

lemma sequence_map_Inr:
  "(\<And>x. x \<in> set xs \<Longrightarrow> f x = Inr (g x)) \<Longrightarrow> sequence (map f xs) = Inr (map g xs)"
  by (induction xs) (simp_all add: ebind_def)

lemma argmax_from_indicator:
  "b = 0 \<or> b = 1 \<Longrightarrow>
   argmax_from b k i (map (\<lambda>t. if t = g then 1 else 0) xs)
   = (if b = 1 then k
      else if g \<in> set xs then i + length (takeWhile (\<lambda>t. t \<noteq> g) xs) else k)"
  by (induction xs arbitrary: b k i) auto

lemma argmax_last_indicator:
  "ids \<noteq> [] \<Longrightarrow>
   argmax_last (map (\<lambda>t. if t = g then 1 else 0) ids) = Inr (sentinel_position g ids)"
  by (cases ids) (auto simp: argmax_last_def sentinel_position_def argmax_from_indicator)

lemma sentinel_position_less: "ids \<noteq> [] \<Longrightarrow> sentinel_position g ids < length ids"
proof -
  assume ne: "ids \<noteq> []"
  have "g \<in> set ids \<Longrightarrow> length (takeWhile (\<lambda>t. t \<noteq> g) ids) < length ids"
    by (induction ids) auto
  with ne show ?thesis by (auto simp: sentinel_position_def)
qed

lemma sentinel_position_absent: "g \<notin> set ids \<Longrightarrow> sentinel_position g ids = 0"
  by (simp add: sentinel_position_def)

lemma s_add_assoc: "s_add (s_add a b) c = s_add a (s_add b c)"
  by (cases a; cases b; cases c) simp_all

lemma s_mul_commute: "s_mul a b = s_mul b a"
  by (cases a; cases b) simp_all

lemma foldl_s_add: "foldl s_add a xs = s_add a (foldl s_add (Fin 0) xs)"
proof (induction xs arbitrary: a)
  case Nil show ?case by (simp add: s_add_zero)
next
  case (Cons x xs)
  have "foldl s_add a (x # xs) = s_add (s_add a x) (foldl s_add (Fin 0) xs)"
    using Cons.IH [of "s_add a x"] by simp
  also have "\<dots> = s_add a (s_add x (foldl s_add (Fin 0) xs))"
    by (rule s_add_assoc)
  also have "s_add x (foldl s_add (Fin 0) xs) = foldl s_add (Fin 0) (x # xs)"
    using Cons.IH [of x] by (simp add: s_add_zero)
  finally show ?case .
qed

lemma s_sum_Cons: "s_sum (x # xs) = s_add x (s_sum xs)"
  using foldl_s_add [of x xs] by (simp add: s_sum_def s_add_zero)

text \<open>The sum that \<^verbatim>\<open>nn.Linear\<close> forms for one output is the weighted sum of the
  input, whatever the order of the additions and of the factors.\<close>

lemma s_sum_weighted_sum: "s_sum (map2 s_mul h w) = weighted_sum w h"
proof (induction w h rule: weighted_sum.induct)
  case (1 w ws x xs)
  then show ?case by (simp add: s_sum_Cons s_mul_commute)
qed (simp_all add: s_sum_def)

text \<open>On finite weights and inputs the weighted sum is the sum of the products in the
  reals: no constant term.\<close>

lemma weighted_sum_finite:
  "weighted_sum (map Fin w) (map Fin x) = Fin (sum_list (map2 (*) w x))"
  by (induction w arbitrary: x) (simp, case_tac x, simp_all)

lemma linear_projection:
  "list_all (\<lambda>w. length w = length h) W \<Longrightarrow> linear W h = Inr (bias_free_projection W h)"
  by (auto simp: linear_def bias_free_projection_def s_sum_weighted_sum list_all_iff list_ex_iff)

text \<open>
  C6. For a batch of non-empty sequences with one hidden vector per token, each of the
  width of the scoring weight, lines 220 to 227 of \<^verbatim>\<open>rel_eval\<close> raise no error; the
  position of a sequence is that of the first occurrence of the sentinel token, and 0
  when the token is absent (\<open>sentinel_position\<close>), and its scores are, for each row
  of the weight, the sum of the products of the row with the hidden vector at that
  position and nothing else (\<open>bias_free_projection\<close>).
\<close>

theorem rel_logits_at_sentinel:
  assumes wf: "list_all2 (\<lambda>ids hs. ids \<noteq> [] \<and> length hs = length ids
                  \<and> list_all (\<lambda>h. list_all (\<lambda>w. length w = length h) (rel_score self)) hs)
                input_ids hidden"
  shows "rel_logits_of self input_ids hidden =
           Inr (map (sentinel_position (gen_score_id self)) input_ids,
                map2 (\<lambda>ids hs. bias_free_projection (rel_score self) (hs ! sentinel_position (gen_score_id self) ids))
                  input_ids hidden)"
proof -
  let ?g = "gen_score_id self"
  let ?pos = "map (sentinel_position ?g) input_ids"
  let ?W = "rel_score self"
  have len: "length input_ids = length hidden"
    using wf by (rule list_all2_lengthD)
  have row: "input_ids ! b \<noteq> [] \<and> length (hidden ! b) = length (input_ids ! b)
             \<and> list_all (\<lambda>h. list_all (\<lambda>w. length w = length h) ?W) (hidden ! b)"
    if "b < length input_ids" for b
    using wf that by (simp add: list_all2_conv_all_nth)
  have p: "sequence (map (\<lambda>ids. argmax_last (map (\<lambda>t. if t = ?g then 1 else 0) ids)) input_ids)
           = Inr ?pos"
  proof (rule sequence_map_Inr)
    fix ids assume "ids \<in> set input_ids"
    then obtain b where "b < length input_ids" "input_ids ! b = ids"
      unfolding in_set_conv_nth by blast
    then have "ids \<noteq> []" using row by blast
    then show "argmax_last (map (\<lambda>t. if t = ?g then 1 else 0) ids) = Inr (sentinel_position ?g ids)"
      by (rule argmax_last_indicator)
  qed
  have bc: "broadcast_pairs [0 ..< length hidden] ?pos = Inr (zip [0 ..< length hidden] ?pos)"
    by (simp add: broadcast_pairs_def len)
  have inb: "p < length (hidden ! b) \<and> b < length input_ids \<and> p = sentinel_position ?g (input_ids ! b)"
    if "(b, p) \<in> set (zip [0 ..< length hidden] ?pos)" for b p
  proof -
    from that obtain i where i: "i < length hidden" "b = i" "p = ?pos ! i"
      unfolding set_zip by (auto simp: len)
    then have "p = sentinel_position ?g (input_ids ! b)" using len by simp
    moreover have "sentinel_position ?g (input_ids ! b) < length (input_ids ! b)"
      using row [of b] i len by (simp add: sentinel_position_less)
    ultimately show ?thesis using row [of b] i len by simp
  qed
  have ga: "sequence (map (\<lambda>(b, p). if p < length (hidden ! b) then Inr (hidden ! b ! p) else Inl IndexError)
              (zip [0 ..< length hidden] ?pos))
            = Inr (map (\<lambda>(b, p). hidden ! b ! p) (zip [0 ..< length hidden] ?pos))"
    by (rule sequence_map_Inr) (use inb in auto)
  have li: "sequence (map (linear ?W) (map (\<lambda>(b, p). hidden ! b ! p) (zip [0 ..< length hidden] ?pos)))
            = Inr (map (bias_free_projection ?W) (map (\<lambda>(b, p). hidden ! b ! p) (zip [0 ..< length hidden] ?pos)))"
  proof (rule sequence_map_Inr)
    fix h assume "h \<in> set (map (\<lambda>(b, p). hidden ! b ! p) (zip [0 ..< length hidden] ?pos))"
    then obtain b p where bp: "(b, p) \<in> set (zip [0 ..< length hidden] ?pos)" "h = hidden ! b ! p"
      by auto
    from inb [OF bp(1)] row [of b] have "list_all (\<lambda>w. length w = length h) ?W"
      by (simp add: bp(2) list_all_length)
    then show "linear ?W h = Inr (bias_free_projection ?W h)" by (rule linear_projection)
  qed
  have fin: "map (bias_free_projection ?W) (map (\<lambda>(b, p). hidden ! b ! p) (zip [0 ..< length hidden] ?pos))
             = map2 (\<lambda>ids hs. bias_free_projection ?W (hs ! sentinel_position ?g ids)) input_ids hidden"
    by (rule nth_equalityI) (simp_all add: len)
  show ?thesis
    by (simp only: rel_logits_of_def p ebind_def sum.case bc ga li fin)
qed

theorem rel_logits_at_sentinel_witness:
  "list_all2 (\<lambda>ids hs. ids \<noteq> [] \<and> length hs = length ids
                  \<and> list_all (\<lambda>h. list_all (\<lambda>w. length w = length h) (rel_score rear2)) hs)
     [[1, 32002, 5, 32002], [7, 8, 9, 10 :: int]]
     [[[Fin 1, Fin 2], [Fin 3, Fin 4], [Fin 5, Fin 6], [Fin 7, Fin 8]],
      [[Fin 9, Fin 2], [Fin 3, Fin 4], [Fin 5, Fin 6], [Fin 7, Fin 8]]]
   \<and> rel_logits_of rear2 [[1, 32002, 5, 32002], [7, 8, 9, 10]]
       [[[Fin 1, Fin 2], [Fin 3, Fin 4], [Fin 5, Fin 6], [Fin 7, Fin 8]],
        [[Fin 9, Fin 2], [Fin 3, Fin 4], [Fin 5, Fin 6], [Fin 7, Fin 8]]]
     = Inr ([1, 0], [[Fin 18, Fin (- 1)], [Fin 24, Fin 7]])"
proof -
  have w: "rel_score rear2 = [[Fin 2, Fin 3], [Fin 1, Fin (- 1)]]" "gen_score_id rear2 = 32002"
    by (simp_all add: rear2_def rear0_def)
  have wf: "list_all2 (\<lambda>ids hs. ids \<noteq> [] \<and> length hs = length ids
                  \<and> list_all (\<lambda>h. list_all (\<lambda>w. length w = length h) (rel_score rear2)) hs)
     [[1, 32002, 5, 32002], [7, 8, 9, 10 :: int]]
     [[[Fin 1, Fin 2], [Fin 3, Fin 4], [Fin 5, Fin 6], [Fin 7, Fin 8]],
      [[Fin 9, Fin 2], [Fin 3, Fin 4], [Fin 5, Fin 6], [Fin 7, Fin 8]]]"
    by (simp add: w)
  have p: "sentinel_position 32002 [1, 32002, 5, 32002] = 1"
          "sentinel_position 32002 [7, 8, 9, 10] = 0"
    by (simp_all add: sentinel_position_def)
  have q: "bias_free_projection [[Fin 2, Fin 3], [Fin 1, Fin (- 1)]] [Fin 3, Fin 4] = [Fin 18, Fin (- 1)]"
          "bias_free_projection [[Fin 2, Fin 3], [Fin 1, Fin (- 1)]] [Fin 9, Fin 2] = [Fin 24, Fin 7]"
    by (simp_all add: bias_free_projection_def)
  show ?thesis
    using rel_logits_at_sentinel [OF wf] by (simp add: w p q)
qed

text \<open>The code at the same input, evaluated directly.\<close>

lemma rel_logits_rear2:
  "rel_logits_of rear2 [[1, 32002, 5, 32002]]
       [[[Fin 1, Fin 2], [Fin 3, Fin 4], [Fin 5, Fin 6], [Fin 7, Fin 8]]]
     = Inr ([1], [[Fin 18, Fin (- 1)]])"
  by (simp add: rel_logits_of_def rear2_def rear0_def ebind_def argmax_last_def
      broadcast_pairs_def linear_def s_sum_def)

end
